theory Spec2Isabelle
  imports Complex_Main "HOL-Library.Multiset"
begin

section \<open>Compatibility model (tsp\_autodj.py)\<close>

text \<open>
  Python floats are modelled as \<^typ>\<open>real\<close>: the arithmetic is exact, there is no NaN and
  no infinity. Where the source uses \<^verbatim>\<open>float('inf')\<close> as a start value the model uses
  \<^typ>\<open>real option\<close> with \<^term>\<open>None\<close> standing for infinity.
\<close>

record SongMetadata =
  path :: string
  name :: string
  bpm :: real
  key :: string
  energy :: real
  duration :: real

subsection \<open>CamelotWheel\<close>

definition WHEEL_POSITIONS :: "string \<rightharpoonup> int" where
  "WHEEL_POSITIONS = map_of
     [(''1A'', 0), (''1B'', 1), (''2A'', 2), (''2B'', 3), (''3A'', 4), (''3B'', 5),
      (''4A'', 6), (''4B'', 7), (''5A'', 8), (''5B'', 9), (''6A'', 10), (''6B'', 11),
      (''7A'', 12), (''7B'', 13), (''8A'', 14), (''8B'', 15), (''9A'', 16), (''9B'', 17),
      (''10A'', 18), (''10B'', 19), (''11A'', 20), (''11B'', 21), (''12A'', 22), (''12B'', 23)]"

definition key_distance :: "string \<Rightarrow> string \<Rightarrow> real" where
  "key_distance key1 key2 =
     (if key1 = key2 then 0
      else case WHEEL_POSITIONS key1 of
        None \<Rightarrow> 1
      | Some pos1 \<Rightarrow>
         (case WHEEL_POSITIONS key2 of
            None \<Rightarrow> 1
          | Some pos2 \<Rightarrow>
             (let circle_pos1 = pos1 div 2;
                  circle_pos2 = pos2 div 2;
                  circle_dist = min \<bar>circle_pos1 - circle_pos2\<bar>
                                    (12 - \<bar>circle_pos1 - circle_pos2\<bar>);
                  side_penalty = (if pos1 mod 2 \<noteq> pos2 mod 2 then 0.2 else 0);
                  normalized_dist = real_of_int circle_dist / 6 + side_penalty
              in min normalized_dist 1)))"

subsection \<open>BPMDistance\<close>

text \<open>
  \<^verbatim>\<open>bpm_distance(bpm1, bpm2, harmonic_threshold=0.08)\<close>: every caller in the repository
  leaves the third argument at its default, so the model fixes it as a constant.
\<close>

definition harmonic_threshold :: real where
  "harmonic_threshold = 0.08"

definition harmonic_ratios :: "real list" where
  "harmonic_ratios = [2, 1.5, 4 / 3, 3 / 4, 2 / 3, 0.5]"

text \<open>One pass of the loop over \<^verbatim>\<open>harmonic_ratios\<close>; the accumulator is \<^verbatim>\<open>best_distance\<close>.\<close>

definition harmonic_step :: "real \<Rightarrow> real \<Rightarrow> real \<Rightarrow> real \<Rightarrow> real" where
  "harmonic_step bpm1 bpm2 target_ratio best_distance =
     (let actual_ratio = bpm1 / bpm2;
          ratio_error = \<bar>actual_ratio - target_ratio\<bar> / target_ratio
      in if ratio_error \<le> harmonic_threshold
         then min best_distance (ratio_error / harmonic_threshold)
         else best_distance)"

definition bpm_distance :: "real \<Rightarrow> real \<Rightarrow> real" where
  "bpm_distance bpm1 bpm2 =
     (if bpm1 = 0 \<or> bpm2 = 0 then 1
      else let ratio = max bpm1 bpm2 / min bpm1 bpm2
           in if ratio - 1 \<le> harmonic_threshold
              then (ratio - 1) / harmonic_threshold
              else fold (harmonic_step bpm1 bpm2) harmonic_ratios 1)"


section \<open>Distance matrix and tour solver (tsp\_autodj.py, class TSPSolver)\<close>

datatype error = KeyError | TypeError

definition calculate_distance :: "SongMetadata \<Rightarrow> SongMetadata \<Rightarrow> real" where
  "calculate_distance song1 song2 =
     (let key_dist = key_distance (key song1) (key song2);
          bpm_dist = bpm_distance (bpm song1) (bpm song2);
          energy_diff = \<bar>energy song1 - energy song2\<bar>;
          energy_dist = min (energy_diff / 0.1) 1;
          total_distance = key_dist * 0.5 + bpm_dist * 0.35 + energy_dist * 0.15
      in total_distance)"

text \<open>The two nested \<^verbatim>\<open>for\<close> loops over \<^verbatim>\<open>range(self.n)\<close> fill every cell once.\<close>

definition build_distance_matrix :: "SongMetadata list \<Rightarrow> real list list" where
  "build_distance_matrix sgs =
     map (\<lambda>i. map (\<lambda>j. if i = j then 0 else calculate_distance (sgs ! i) (sgs ! j))
                [0..<length sgs])
         [0..<length sgs]"

record TSPSolver =
  songs :: "SongMetadata list"
  n :: nat
  distance_matrix :: "real list list"

definition TSPSolver_init :: "SongMetadata list \<Rightarrow> TSPSolver" where
  "TSPSolver_init sgs =
     \<lparr>songs = sgs, n = length sgs, distance_matrix = build_distance_matrix sgs\<rparr>"

text \<open>
  \<^verbatim>\<open>distance < nearest_distance\<close> where the right-hand side starts as
  \<^verbatim>\<open>float('inf')\<close>: \<^term>\<open>None\<close> is infinity.
\<close>

definition lt_inf :: "real \<Rightarrow> real option \<Rightarrow> bool" where
  "lt_inf d best = (case best of None \<Rightarrow> True | Some b \<Rightarrow> d < b)"

text \<open>
  The set \<^verbatim>\<open>unvisited\<close> is a list without duplicates, in the order the \<^verbatim>\<open>for\<close> loop
  visits it (ascending for \<^verbatim>\<open>set(range(n))\<close> in CPython). The inner loop keeps
  \<^verbatim>\<open>(nearest_distance, nearest_song)\<close>.
\<close>

definition nearest_step ::
    "TSPSolver \<Rightarrow> nat \<Rightarrow> nat \<Rightarrow> real option \<times> nat option \<Rightarrow> real option \<times> nat option" where
  "nearest_step self current next_song acc =
     (let distance = distance_matrix self ! current ! next_song
      in if lt_inf distance (fst acc) then (Some distance, Some next_song) else acc)"

definition find_nearest :: "TSPSolver \<Rightarrow> nat \<Rightarrow> nat list \<Rightarrow> nat option" where
  "find_nearest self current unvisited =
     snd (fold (nearest_step self current) unvisited (None, None))"

text \<open>
  \<^verbatim>\<open>while unvisited: ...\<close>. \<^verbatim>\<open>unvisited.remove(x)\<close> raises \<^verbatim>\<open>KeyError\<close> when
  \<^verbatim>\<open>x\<close> is not a member, which covers \<^verbatim>\<open>nearest_song = None\<close>.
\<close>

function nn_loop :: "TSPSolver \<Rightarrow> nat list \<Rightarrow> nat list \<Rightarrow> nat \<Rightarrow> error + nat list" where
  "nn_loop self unvisited tour current =
     (if unvisited = [] then Inr tour
      else case find_nearest self current unvisited of
             None \<Rightarrow> Inl KeyError
           | Some nearest_song \<Rightarrow>
               if nearest_song \<in> set unvisited
               then nn_loop self (remove1 nearest_song unvisited) (tour @ [nearest_song])
                      nearest_song
               else Inl KeyError)"
  by pat_completeness auto
termination
  by (relation "measure (\<lambda>(self, unvisited, tour, current). length unvisited)")
     (auto simp: length_remove1 intro: length_pos_if_in_set)

declare nn_loop.simps [simp del]

definition solve_nearest_neighbor :: "TSPSolver \<Rightarrow> nat \<Rightarrow> error + nat list" where
  "solve_nearest_neighbor self start_index =
     (let unvisited = [0..<n self];
          tour = [start_index]
      in if start_index \<in> set unvisited
         then nn_loop self (remove1 start_index unvisited) tour start_index
         else Inl KeyError)"

text \<open>\<^verbatim>\<open>_calculate_tour_distance\<close>: the loop adds one cyclic edge per position.\<close>

definition calculate_tour_distance :: "TSPSolver \<Rightarrow> nat list \<Rightarrow> real" where
  "calculate_tour_distance self tour =
     fold (\<lambda>i total. let j = (i + 1) mod length tour
                      in total + distance_matrix self ! (tour ! i) ! (tour ! j))
          [0..<length tour] 0"

text \<open>\<^verbatim>\<open>new_tour[i:j] = reversed(new_tour[i:j])\<close>\<close>

definition reverse_segment :: "nat list \<Rightarrow> nat \<Rightarrow> nat \<Rightarrow> nat list" where
  "reverse_segment tour i j = take i tour @ rev (take (j - i) (drop i tour)) @ drop j tour"

text \<open>
  The inner \<^verbatim>\<open>for j\<close> loop and the outer \<^verbatim>\<open>for i\<close> loop of one 2-opt pass. Each returns
  the first strictly better candidate with its distance (the \<^verbatim>\<open>break\<close>), or
  \<^term>\<open>None\<close> when the scan ends with \<^verbatim>\<open>improved = False\<close>.
\<close>

fun scan_j :: "TSPSolver \<Rightarrow> nat list \<Rightarrow> real \<Rightarrow> nat \<Rightarrow> nat list \<Rightarrow> (nat list \<times> real) option" where
  "scan_j self tour best_distance i [] = None"
| "scan_j self tour best_distance i (j # js) =
     (if j - i = 1 then scan_j self tour best_distance i js
      else let new_tour = reverse_segment tour i j;
               new_distance = calculate_tour_distance self new_tour
           in if new_distance < best_distance then Some (new_tour, new_distance)
              else scan_j self tour best_distance i js)"

fun scan_i :: "TSPSolver \<Rightarrow> nat list \<Rightarrow> real \<Rightarrow> nat list \<Rightarrow> (nat list \<times> real) option" where
  "scan_i self tour best_distance [] = None"
| "scan_i self tour best_distance (i # is) =
     (case scan_j self tour best_distance i [i + 1..<length tour] of
        Some r \<Rightarrow> Some r
      | None \<Rightarrow> scan_i self tour best_distance is)"

text \<open>\<^verbatim>\<open>for iteration in range(max_iterations)\<close>, with the iterations left as first argument.\<close>

fun improve_loop :: "nat \<Rightarrow> TSPSolver \<Rightarrow> nat list \<Rightarrow> nat list \<Rightarrow> real \<Rightarrow> nat list" where
  "improve_loop 0 self tour best_tour best_distance = best_tour"
| "improve_loop (Suc k) self tour best_tour best_distance =
     (case scan_i self tour best_distance [1..<length tour - 2] of
        None \<Rightarrow> best_tour
      | Some (new_tour, new_distance) \<Rightarrow> improve_loop k self new_tour new_tour new_distance)"

definition improve_2opt :: "TSPSolver \<Rightarrow> nat list \<Rightarrow> nat \<Rightarrow> nat list" where
  "improve_2opt self tour max_iterations =
     improve_loop max_iterations self tour tour (calculate_tour_distance self tour)"

text \<open>
  \<^verbatim>\<open>solve\<close>: the loop over \<^verbatim>\<open>start_points\<close> keeps \<^verbatim>\<open>best_tour\<close> (initially
  \<^verbatim>\<open>None\<close>) and \<^verbatim>\<open>best_distance\<close> (initially infinity); \<^verbatim>\<open>improve_2opt\<close> is called with
  its default \<^verbatim>\<open>max_iterations = 1000\<close>.
\<close>

fun solve_loop ::
    "TSPSolver \<Rightarrow> nat list \<Rightarrow> nat list option \<Rightarrow> real option \<Rightarrow> error + nat list option" where
  "solve_loop self [] best_tour best_distance = Inr best_tour"
| "solve_loop self (start # rest) best_tour best_distance =
     (case solve_nearest_neighbor self start of
        Inl e \<Rightarrow> Inl e
      | Inr tour0 \<Rightarrow>
         (let tour = improve_2opt self tour0 1000;
              distance = calculate_tour_distance self tour
          in if lt_inf distance best_distance
             then solve_loop self rest (Some tour) (Some distance)
             else solve_loop self rest best_tour best_distance))"

definition solve :: "TSPSolver \<Rightarrow> error + nat list option" where
  "solve self =
     (if n self \<le> 1 then Inr (Some [0..<n self])
      else let start_points = [0..<min 5 (n self)]
           in solve_loop self start_points None None)"


section \<open>Crossfade engine (tsp\_autodj\_player.py, class AudioMixer)\<close>

text \<open>
  An audio buffer is a numpy array of shape \<^verbatim>\<open>(samples, 2)\<close>: a list of stereo frames.
  Cursors, lengths and frame counts are never negative in the program (they start at 0 and
  grow by positive amounts), so they are natural numbers; a Python difference that may be
  negative is only ever compared with 0, where truncated subtraction gives the same answer.
  The stream handle and the lock are left out.
\<close>

type_synonym frame = "real \<times> real"

record AudioMixer =
  sample_rate :: nat
  chunk_size :: nat
  current_audio :: "frame list option"
  next_audio :: "frame list option"
  crossfade_samples :: nat
  current_position :: nat
  is_crossfading :: bool
  crossfade_position :: nat
  master_volume :: real
  is_playing :: bool

definition AudioMixer_init :: "nat \<Rightarrow> nat \<Rightarrow> AudioMixer" where
  "AudioMixer_init rate chunk =
     \<lparr>sample_rate = rate, chunk_size = chunk,
      current_audio = None, next_audio = None,
      crossfade_samples = rate * 4,
      current_position = 0, is_crossfading = False, crossfade_position = 0,
      master_volume = 0.8, is_playing = False\<rparr>"

definition zeros :: "nat \<Rightarrow> frame list" where
  "zeros k = replicate k (0, 0)"

text \<open>\<^verbatim>\<open>a[lo:hi]\<close> for \<^verbatim>\<open>0 <= lo\<close>; the upper bound is clipped to the length.\<close>

definition py_slice :: "'a list \<Rightarrow> nat \<Rightarrow> nat \<Rightarrow> 'a list" where
  "py_slice xs lo hi = take (hi - lo) (drop lo xs)"

text \<open>\<^verbatim>\<open>out[lo:hi] = xs\<close> where \<^verbatim>\<open>xs\<close> has the shape of the slice.\<close>

definition assign_slice :: "'a list \<Rightarrow> nat \<Rightarrow> nat \<Rightarrow> 'a list \<Rightarrow> 'a list" where
  "assign_slice out lo hi xs = take lo out @ xs @ drop hi out"

definition scale_frame :: "real \<Rightarrow> frame \<Rightarrow> frame" where
  "scale_frame g f = (fst f * g, snd f * g)"

text \<open>\<^verbatim>\<open>np.tanh(output * 0.95) * 0.95\<close>, per sample.\<close>

definition soft_limit :: "frame \<Rightarrow> frame" where
  "soft_limit f = (tanh (fst f * 0.95) * 0.95, tanh (snd f * 0.95) * 0.95)"

text \<open>\<^verbatim>\<open>current_chunk * current_weight + next_chunk * next_weight\<close>\<close>

definition mix_chunks :: "frame list \<Rightarrow> real \<Rightarrow> frame list \<Rightarrow> real \<Rightarrow> frame list" where
  "mix_chunks current_chunk current_weight next_chunk next_weight =
     map (\<lambda>(c, x). (fst c * current_weight + fst x * next_weight,
                     snd c * current_weight + snd x * next_weight))
         (zip current_chunk next_chunk)"

text \<open>
  The body of the crossfade loop from \<^verbatim>\<open>fade_progress\<close> to \<^verbatim>\<open>mixed_chunk\<close>: the weights
  are computed once for the whole sub-chunk of \<^verbatim>\<open>samples_needed\<close> frames, and the next
  track is always read from its first sample.
\<close>

definition crossfade_chunk :: "AudioMixer \<Rightarrow> nat \<Rightarrow> frame list" where
  "crossfade_chunk self samples_needed =
     (let fade_progress = real (crossfade_position self) / real (crossfade_samples self);
          current_weight = 1 - fade_progress;
          next_weight = fade_progress;
          current_chunk =
            (case current_audio self of
               None \<Rightarrow> zeros samples_needed
             | Some cur \<Rightarrow>
                 if current_position self + samples_needed \<le> length cur
                 then py_slice cur (current_position self)
                        (current_position self + samples_needed)
                 else zeros samples_needed);
          next_chunk =
            (case next_audio self of
               None \<Rightarrow> zeros samples_needed
             | Some nxt \<Rightarrow>
                 if samples_needed \<le> length nxt
                 then py_slice nxt 0 samples_needed
                 else zeros samples_needed);
          mixed_chunk = mix_chunks current_chunk current_weight next_chunk next_weight
      in mixed_chunk)"

text \<open>
  The \<^verbatim>\<open>while samples_generated < frame_count\<close> loop of the crossfade branch. It returns
  the output block and the mixer as they are when the loop is left, by either \<^verbatim>\<open>break\<close>
  or the loop condition.
\<close>

function crossfade_loop :: "nat \<Rightarrow> nat \<Rightarrow> frame list \<Rightarrow> AudioMixer \<Rightarrow> frame list \<times> AudioMixer" where
  "crossfade_loop frame_count samples_generated output self =
     (if samples_generated < frame_count then
        (let samples_needed = min (frame_count - samples_generated)
                                  (crossfade_samples self - crossfade_position self)
         in if samples_needed \<le> 0 then (output, self)
            else
              (let mixed_chunk = crossfade_chunk self samples_needed;
                   output' = assign_slice output samples_generated
                               (samples_generated + samples_needed) mixed_chunk;
                   self' = self\<lparr>current_position := current_position self + samples_needed,
                                 crossfade_position := crossfade_position self + samples_needed\<rparr>;
                   samples_generated' = samples_generated + samples_needed
               in if crossfade_position self' \<ge> crossfade_samples self'
                  then (output',
                        self'\<lparr>current_audio := next_audio self',
                               next_audio := None,
                               current_position := samples_needed,
                               is_crossfading := False,
                               crossfade_position := 0\<rparr>)
                  else crossfade_loop frame_count samples_generated' output' self'))
      else (output, self))"
  by pat_completeness auto
termination
  by (relation "measure (\<lambda>(frame_count, samples_generated, output, self).
                           frame_count - samples_generated)") auto

declare crossfade_loop.simps [simp del]

text \<open>
  \<^verbatim>\<open>_generate_audio_chunk\<close>. In the first branch \<^verbatim>\<open>output\<close> is rebound to a slice of
  \<^verbatim>\<open>self.current_audio\<close>, which numpy returns as a view: \<^verbatim>\<open>output *= self.master_volume\<close>
  then writes the scaled samples into the track's own buffer. In the other branches
  \<^verbatim>\<open>output\<close> is the fresh array of zeros. \<^verbatim>\<open>len(self.current_audio)\<close> raises
  \<^verbatim>\<open>TypeError\<close> when there is no current buffer.
\<close>

definition generate_audio_chunk :: "AudioMixer \<Rightarrow> nat \<Rightarrow> error + (frame list \<times> AudioMixer)" where
  "generate_audio_chunk self frame_count =
     (if \<not> is_crossfading self then
        (case current_audio self of
           None \<Rightarrow> Inl TypeError
         | Some cur \<Rightarrow>
             if current_position self + frame_count < length cur then
               (let lo = current_position self;
                    hi = current_position self + frame_count;
                    scaled = map (scale_frame (master_volume self)) (py_slice cur lo hi);
                    cur' = assign_slice cur lo hi scaled
                in Inr (map soft_limit scaled,
                        self\<lparr>current_position := hi, current_audio := Some cur'\<rparr>))
             else
               (let remaining = length cur - current_position self;
                    output = (if remaining > 0
                              then assign_slice (zeros frame_count) 0 remaining
                                     (drop (current_position self) cur)
                              else zeros frame_count)
                in Inr (map soft_limit (map (scale_frame (master_volume self)) output),
                        self\<lparr>current_position := length cur\<rparr>)))
      else
        (case crossfade_loop frame_count 0 (zeros frame_count) self of
           (output, self') \<Rightarrow>
             Inr (map soft_limit (map (scale_frame (master_volume self')) output), self')))"

text \<open>
  \<^verbatim>\<open>_audio_callback\<close>: silence unless playing with a current buffer; an exception of
  \<^verbatim>\<open>_generate_audio_chunk\<close> is caught and answered with silence.
\<close>

definition audio_callback :: "AudioMixer \<Rightarrow> nat \<Rightarrow> frame list \<times> AudioMixer" where
  "audio_callback self frame_count =
     (if \<not> is_playing self \<or> current_audio self = None then (zeros frame_count, self)
      else case generate_audio_chunk self frame_count of
             Inr (output, self') \<Rightarrow> (output, self')
           | Inl e \<Rightarrow> (zeros frame_count, self))"

text \<open>
  \<^verbatim>\<open>play_song\<close> and \<^verbatim>\<open>prepare_next_song\<close>: the argument \<open>loaded\<close> is what
  \<^verbatim>\<open>load_song_stems(song_path)\<close> returned (\<^term>\<open>None\<close> when the song could not be read).
\<close>

definition play_song :: "AudioMixer \<Rightarrow> frame list option \<Rightarrow> bool \<times> AudioMixer" where
  "play_song self loaded =
     (case loaded of
        None \<Rightarrow> (False, self)
      | Some audio \<Rightarrow>
          (True, self\<lparr>current_audio := Some audio, current_position := 0, is_playing := True\<rparr>))"

definition prepare_next_song :: "AudioMixer \<Rightarrow> frame list option \<Rightarrow> AudioMixer" where
  "prepare_next_song self loaded =
     (case loaded of
        None \<Rightarrow> self
      | Some audio \<Rightarrow> self\<lparr>next_audio := Some audio\<rparr>)"

definition start_crossfade :: "AudioMixer \<Rightarrow> bool \<times> AudioMixer" where
  "start_crossfade self =
     (if next_audio self \<noteq> None
      then (True, self\<lparr>is_crossfading := True, crossfade_position := 0\<rparr>)
      else (False, self))"

section \<open>Tour player (tsp\_autodj\_player.py, class TSPAutoDJPlayer)\<close>

definition calculate_song_compatibility :: "SongMetadata \<Rightarrow> SongMetadata \<Rightarrow> real" where
  "calculate_song_compatibility song1 song2 =
     (let key_dist = key_distance (key song1) (key song2);
          key_score = 1 - key_dist;
          bpm_dist = bpm_distance (bpm song1) (bpm song2);
          bpm_score = 1 - bpm_dist;
          energy_diff = \<bar>energy song1 - energy song2\<bar>;
          energy_score = max 0 (1 - energy_diff / 0.2);
          compatibility = key_score * 0.5 + bpm_score * 0.35 + energy_score * 0.15
      in max 0 (min 1 compatibility))"

text \<open>
  The net effect of one pass through the loop body on the mixer (the cursor updates and the
  \<^verbatim>\<open>if self.crossfade_position >= self.crossfade_samples\<close> block), for a sub-chunk of
  \<open>k\<close> frames.
\<close>

definition crossfade_advance :: "AudioMixer \<Rightarrow> nat \<Rightarrow> AudioMixer" where
  "crossfade_advance self k =
     (if crossfade_samples self \<le> crossfade_position self + k
      then self\<lparr>current_audio := next_audio self, next_audio := None,
                current_position := k, is_crossfading := False, crossfade_position := 0\<rparr>
      else self\<lparr>current_position := current_position self + k,
                crossfade_position := crossfade_position self + k\<rparr>)"

section \<open>Test inputs\<close>

text \<open>
  A mixer with a crossfade window of 100 samples (sample rate 25), playing a buffer of 200
  all-ones frames, with 200 all-zero frames staged as next track and the crossfade started.
\<close>

definition scenario_mixer :: AudioMixer where
  "scenario_mixer =
     snd (start_crossfade
            (prepare_next_song
               (snd (play_song (AudioMixer_init 25 1024) (Some (replicate 200 (1, 1)))))
               (Some (replicate 200 (0, 0)))))"

text \<open>Track records that differ only in tempo, key and energy.\<close>

definition scenario_song :: "real \<Rightarrow> string \<Rightarrow> real \<Rightarrow> SongMetadata" where
  "scenario_song b k e = \<lparr>path = [], name = [], bpm = b, key = k, energy = e, duration = 0\<rparr>"

definition scenario_library :: "SongMetadata list" where
  "scenario_library =
     [scenario_song 120 ''8A'' 0.1, scenario_song 122 ''8A'' 0.1,
      scenario_song 90 ''3B'' 0.3, scenario_song 125 ''1A'' 0.5]"

section \<open>Compatibility model: values, symmetry and bounds\<close>

lemmas bpm_eval = bpm_distance_def harmonic_step_def harmonic_ratios_def harmonic_threshold_def

text \<open>
  Claim C5, as the code has it: \<^verbatim>\<open>bpm_distance(120, 120)\<close> is 0;
  \<^verbatim>\<open>bpm_distance(120, 240)\<close> is 0 through the harmonic ratio 0.5;
  \<^verbatim>\<open>bpm_distance(120, 121)\<close> is \<open>(121/120 - 1)/0.08\<close> in the direct-tolerance branch;
  and \<^verbatim>\<open>bpm_distance(100, 137)\<close> is \<open>275/822\<close> (about 0.335), because \<open>100/137\<close> lies
  within 8 percent of the harmonic ratio \<open>3/4\<close>.
\<close>

theorem bpm_distance_values:
  "bpm_distance 120 120 = 0 \<and> bpm_distance 120 240 = 0 \<and>
   bpm_distance 120 121 = (121 / 120 - 1) / 0.08 \<and>
   bpm_distance 100 137 = 275 / 822"
  by (simp add: bpm_eval)

text \<open>The value 1.0 stated for \<^verbatim>\<open>bpm_distance(100, 137)\<close> is not what the function returns.\<close>

theorem bpm_distance_100_137_counterexample: "bpm_distance 100 137 \<noteq> 1"
  by (simp add: bpm_eval)

lemma key_distance_sym: "key_distance k1 k2 = key_distance k2 k1"
  by (auto simp: key_distance_def Let_def abs_minus_commute split: option.splits)

lemma bpm_distance_direct_sym:
  "b1 = 0 \<or> b2 = 0 \<or> max b1 b2 / min b1 b2 - 1 \<le> harmonic_threshold \<Longrightarrow>
     bpm_distance b1 b2 = bpm_distance b2 b1"
  by (auto simp: bpm_distance_def Let_def max.commute min.commute)

lemma WHEEL_POSITIONS_range: "WHEEL_POSITIONS k = Some p \<Longrightarrow> 0 \<le> p \<and> p \<le> 23"
  by (auto simp: WHEEL_POSITIONS_def split: if_splits)

lemma key_distance_bounds: "0 \<le> key_distance k1 k2 \<and> key_distance k1 k2 \<le> 1"
proof (cases "k1 = k2")
  case True
  then show ?thesis by (simp add: key_distance_def)
next
  case False
  show ?thesis
  proof (cases "WHEEL_POSITIONS k1")
    case None
    with False show ?thesis by (simp add: key_distance_def)
  next
    case (Some p1)
    show ?thesis
    proof (cases "WHEEL_POSITIONS k2")
      case None
      with False Some show ?thesis by (simp add: key_distance_def)
    next
      case (Some p2)
      from WHEEL_POSITIONS_range [OF \<open>WHEEL_POSITIONS k1 = Some p1\<close>]
           WHEEL_POSITIONS_range [OF Some]
      have "\<bar>p1 div 2 - p2 div 2\<bar> \<le> 12" by linarith
      then have "0 \<le> min \<bar>p1 div 2 - p2 div 2\<bar> (12 - \<bar>p1 div 2 - p2 div 2\<bar>)" by simp
      then have "0 \<le> real_of_int (min \<bar>p1 div 2 - p2 div 2\<bar> (12 - \<bar>p1 div 2 - p2 div 2\<bar>)) / 6"
        by simp
      with False Some \<open>WHEEL_POSITIONS k1 = Some p1\<close> show ?thesis
        by (simp add: key_distance_def Let_def min_def)
    qed
  qed
qed

lemma harmonic_fold_bounds:
  "0 \<le> acc \<Longrightarrow> acc \<le> 1 \<Longrightarrow> \<forall>t \<in> set ts. 0 < t \<Longrightarrow>
     0 \<le> fold (harmonic_step b1 b2) ts acc \<and> fold (harmonic_step b1 b2) ts acc \<le> 1"
proof (induction ts arbitrary: acc)
  case Nil
  then show ?case by simp
next
  case (Cons t ts)
  from Cons.prems have t: "0 < t" by simp
  then have e: "0 \<le> \<bar>b1 / b2 - t\<bar> / t / harmonic_threshold"
    by (simp add: harmonic_threshold_def)
  have "0 \<le> harmonic_step b1 b2 t acc \<and> harmonic_step b1 b2 t acc \<le> 1"
    using Cons.prems(1,2) e by (simp add: harmonic_step_def Let_def min_def)
  with Cons.IH [of "harmonic_step b1 b2 t acc"] Cons.prems(3) show ?case by simp
qed

lemma bpm_distance_bounds:
  assumes "0 < b1" "0 < b2"
  shows "0 \<le> bpm_distance b1 b2 \<and> bpm_distance b1 b2 \<le> 1"
proof -
  let ?r = "max b1 b2 / min b1 b2"
  from assms have m: "0 < min b1 b2" "min b1 b2 \<le> max b1 b2" by simp_all
  then have r1: "1 \<le> ?r" by (simp add: pos_le_divide_eq)
  show ?thesis
  proof (cases "?r - 1 \<le> harmonic_threshold")
    case True
    with assms have val: "bpm_distance b1 b2 = (?r - 1) / harmonic_threshold"
      by (simp add: bpm_distance_def Let_def)
    define r where "r = ?r"
    from r1 True have "1 \<le> r" "r - 1 \<le> harmonic_threshold" by (simp_all add: r_def)
    then have "0 \<le> (r - 1) / harmonic_threshold \<and> (r - 1) / harmonic_threshold \<le> 1"
      by (simp add: harmonic_threshold_def)
    then show ?thesis unfolding val r_def .
  next
    case False
    have "0 \<le> fold (harmonic_step b1 b2) harmonic_ratios 1 \<and>
          fold (harmonic_step b1 b2) harmonic_ratios 1 \<le> 1"
      by (rule harmonic_fold_bounds) (simp_all add: harmonic_ratios_def)
    with False assms show ?thesis by (simp add: bpm_distance_def Let_def)
  qed
qed

section \<open>Distance matrix\<close>

lemma build_distance_matrix_nth:
  "i < length sgs \<Longrightarrow> j < length sgs \<Longrightarrow>
     build_distance_matrix sgs ! i ! j =
       (if i = j then 0 else calculate_distance (sgs ! i) (sgs ! j))"
  by (simp add: build_distance_matrix_def)

lemma calculate_distance_diff:
  "calculate_distance s1 s2 - calculate_distance s2 s1 =
     0.35 * (bpm_distance (bpm s1) (bpm s2) - bpm_distance (bpm s2) (bpm s1))"
  by (simp add: calculate_distance_def Let_def key_distance_sym [of "key s1" "key s2"]
        abs_minus_commute [of "energy s1" "energy s2"] algebra_simps)

text \<open>
  Claim C2, as the code has it: every diagonal entry of the distance matrix is 0; the key
  and energy parts of the distance are symmetric, so two mirrored entries differ by exactly
  0.35 times the difference of the two tempo distances; and the entries are equal whenever
  the tempo distance is taken in its symmetric branch (one tempo is 0, or the larger tempo
  exceeds the smaller by at most 8 percent).
\<close>

theorem distance_matrix_diagonal_and_symmetry:
  assumes i: "i < length sgs" and j: "j < length sgs"
  shows "build_distance_matrix sgs ! i ! i = 0 \<and>
         build_distance_matrix sgs ! i ! j - build_distance_matrix sgs ! j ! i =
           0.35 * (bpm_distance (bpm (sgs ! i)) (bpm (sgs ! j)) -
                   bpm_distance (bpm (sgs ! j)) (bpm (sgs ! i))) \<and>
         (bpm (sgs ! i) = 0 \<or> bpm (sgs ! j) = 0 \<or>
          max (bpm (sgs ! i)) (bpm (sgs ! j)) / min (bpm (sgs ! i)) (bpm (sgs ! j)) - 1
            \<le> harmonic_threshold \<longrightarrow>
          build_distance_matrix sgs ! i ! j = build_distance_matrix sgs ! j ! i)"
proof (intro conjI impI)
  show "build_distance_matrix sgs ! i ! i = 0"
    using i by (simp add: build_distance_matrix_nth)
next
  show "build_distance_matrix sgs ! i ! j - build_distance_matrix sgs ! j ! i =
           0.35 * (bpm_distance (bpm (sgs ! i)) (bpm (sgs ! j)) -
                   bpm_distance (bpm (sgs ! j)) (bpm (sgs ! i)))"
  proof (cases "i = j")
    case True
    then show ?thesis by simp
  next
    case False
    then have "build_distance_matrix sgs ! i ! j - build_distance_matrix sgs ! j ! i =
        calculate_distance (sgs ! i) (sgs ! j) - calculate_distance (sgs ! j) (sgs ! i)"
      using i j by (simp add: build_distance_matrix_nth)
    then show ?thesis by (simp only: calculate_distance_diff)
  qed
  then show "build_distance_matrix sgs ! i ! j = build_distance_matrix sgs ! j ! i"
    if "bpm (sgs ! i) = 0 \<or> bpm (sgs ! j) = 0 \<or>
          max (bpm (sgs ! i)) (bpm (sgs ! j)) / min (bpm (sgs ! i)) (bpm (sgs ! j)) - 1
            \<le> harmonic_threshold"
    using bpm_distance_direct_sym [OF that] by simp
qed

theorem distance_matrix_diagonal_and_symmetry_witness:
  "(0::nat) < length [scenario_song 120 ''8A'' 0.1, scenario_song 122 ''9A'' 0.3] \<and>
   (1::nat) < length [scenario_song 120 ''8A'' 0.1, scenario_song 122 ''9A'' 0.3] \<and>
   max (120::real) 122 / min 120 122 - 1 \<le> harmonic_threshold \<and>
   build_distance_matrix [scenario_song 120 ''8A'' 0.1, scenario_song 122 ''9A'' 0.3] ! 0 ! 1 =
   build_distance_matrix [scenario_song 120 ''8A'' 0.1, scenario_song 122 ''9A'' 0.3] ! 1 ! 0"
proof -
  let ?l = "[scenario_song 120 ''8A'' 0.1, scenario_song 122 ''9A'' 0.3]"
  have h0: "(0::nat) < length ?l" and h1: "(1::nat) < length ?l" by simp_all
  have d: "max (120::real) 122 / min 120 122 - 1 \<le> harmonic_threshold"
    by (simp add: harmonic_threshold_def)
  from distance_matrix_diagonal_and_symmetry [OF h0 h1] d h0 h1 show ?thesis
    by (simp add: scenario_song_def)
qed

text \<open>
  The matrix is not symmetric in general: for tempos 100 and 210 the harmonic branch
  measures the error relative to the target ratio, 0.5 one way and 2 the other.
\<close>

theorem distance_matrix_symmetric_counterexample:
  "build_distance_matrix [scenario_song 100 ''8A'' 0.1, scenario_song 210 ''8A'' 0.1] ! 0 ! 1 \<noteq>
   build_distance_matrix [scenario_song 100 ''8A'' 0.1, scenario_song 210 ''8A'' 0.1] ! 1 ! 0"
  by (simp add: build_distance_matrix_def calculate_distance_def scenario_song_def
        key_distance_def bpm_eval)

section \<open>Tour solver\<close>

lemma fold_nearest_in:
  "snd (fold (nearest_step self c) xs acc) = Some x \<Longrightarrow> x \<in> set xs \<or> snd acc = Some x"
proof (induction xs arbitrary: acc)
  case Nil
  then show ?case by simp
next
  case (Cons y ys)
  from Cons.IH [of "nearest_step self c y acc"] Cons.prems
  have "x \<in> set ys \<or> snd (nearest_step self c y acc) = Some x" by simp
  then show ?case
    by (auto simp: nearest_step_def Let_def split: if_splits)
qed

lemma fold_nearest_keeps_some:
  "snd acc \<noteq> None \<Longrightarrow> snd (fold (nearest_step self c) xs acc) \<noteq> None"
  by (induction xs arbitrary: acc) (auto simp: nearest_step_def Let_def)

lemma find_nearest_in: "find_nearest self c xs = Some x \<Longrightarrow> x \<in> set xs"
  using fold_nearest_in [of self c xs "(None, None)" x] by (simp add: find_nearest_def)

lemma find_nearest_some: "xs \<noteq> [] \<Longrightarrow> find_nearest self c xs \<noteq> None"
proof (cases xs)
  case Nil
  assume "xs \<noteq> []"
  with Nil show ?thesis by simp
next
  case (Cons y ys)
  have "snd (nearest_step self c y (None, None)) \<noteq> None"
    by (simp add: nearest_step_def lt_inf_def)
  from fold_nearest_keeps_some [OF this, of self c ys] Cons
  show ?thesis by (simp add: find_nearest_def)
qed

lemma nn_loop_perm:
  "\<exists>t. nn_loop self unvisited tour current = Inr t \<and> mset t = mset tour + mset unvisited"
proof (induction self unvisited tour current rule: nn_loop.induct)
  case (1 self unvisited tour current)
  show ?case
  proof (cases "unvisited = []")
    case True
    then show ?thesis by (simp add: nn_loop.simps)
  next
    case False
    then obtain x where x: "find_nearest self current unvisited = Some x"
      using find_nearest_some [of unvisited self current] by auto
    then have mem: "x \<in> set unvisited" by (rule find_nearest_in)
    from "1.IH" [OF False x mem]
    obtain t where t: "nn_loop self (remove1 x unvisited) (tour @ [x]) x = Inr t"
      and m: "mset t = mset (tour @ [x]) + mset (remove1 x unvisited)" by blast
    from mem have "mset (remove1 x unvisited) + {#x#} = mset unvisited" by simp
    with m have "mset t = mset tour + mset unvisited"
      by (simp add: add.assoc add.commute)
    with False x mem t show ?thesis by (subst nn_loop.simps) simp
  qed
qed

lemma solve_nearest_neighbor_perm:
  assumes "start < n self"
  shows "\<exists>t. solve_nearest_neighbor self start = Inr t \<and> mset t = mset [0..<n self]"
proof -
  from nn_loop_perm [of self "remove1 start [0..<n self]" "[start]" start]
  obtain t where t: "nn_loop self (remove1 start [0..<n self]) [start] start = Inr t"
    and m: "mset t = mset [start] + mset (remove1 start [0..<n self])" by blast
  from assms have mem: "start \<in> set [0..<n self]" by simp
  then have "mset [start] + mset (remove1 start [0..<n self]) = mset [0..<n self]"
    by (simp del: set_upt mset_upt)
  with m t mem show ?thesis
    by (simp add: solve_nearest_neighbor_def Let_def del: mset_upt)
qed

lemma mset_reverse_segment: "i \<le> j \<Longrightarrow> mset (reverse_segment tour i j) = mset tour"
proof -
  assume ij: "i \<le> j"
  have "take (j - i) (drop i tour) @ drop j tour = drop i tour"
    using ij append_take_drop_id [of "j - i" "drop i tour"] by simp
  then have "mset (take (j - i) (drop i tour)) + mset (drop j tour) = mset (drop i tour)"
    by (metis mset_append)
  moreover have "mset (take i tour) + mset (drop i tour) = mset tour"
    by (metis append_take_drop_id mset_append)
  ultimately show ?thesis
    by (simp add: reverse_segment_def add.assoc)
qed

lemma scan_j_result:
  "scan_j self tour bd i js = Some (t, d) \<Longrightarrow> \<forall>j \<in> set js. i \<le> j \<Longrightarrow>
     mset t = mset tour \<and> d = calculate_tour_distance self t \<and> d < bd"
  by (induction js) (auto simp: Let_def mset_reverse_segment split: if_splits)

lemma scan_i_result:
  "scan_i self tour bd is = Some (t, d) \<Longrightarrow>
     mset t = mset tour \<and> d = calculate_tour_distance self t \<and> d < bd"
proof (induction "is")
  case Nil
  then show ?case by simp
next
  case (Cons i "is")
  show ?case
  proof (cases "scan_j self tour bd i [i + 1..<length tour]")
    case None
    with Cons show ?thesis by simp
  next
    case (Some r)
    with Cons.prems have "scan_j self tour bd i [i + 1..<length tour] = Some (t, d)" by simp
    then show ?thesis by (rule scan_j_result) simp
  qed
qed

lemma improve_loop_mset: "mset (improve_loop k self tour tour bd) = mset tour"
proof (induction k arbitrary: tour bd)
  case 0
  then show ?case by simp
next
  case (Suc k)
  show ?case
  proof (cases "scan_i self tour bd [1..<length tour - 2]")
    case None
    then show ?thesis by simp
  next
    case (Some r)
    obtain t d where r: "r = (t, d)" by (cases r)
    from scan_i_result [OF Some [unfolded r]] have "mset t = mset tour" by simp
    with Suc.IH [of t d] Some r show ?thesis by simp
  qed
qed

lemma improve_loop_distance:
  "bd = calculate_tour_distance self tour \<Longrightarrow>
     calculate_tour_distance self (improve_loop k self tour tour bd) \<le> bd"
proof (induction k arbitrary: tour bd)
  case 0
  then show ?case by simp
next
  case (Suc k)
  show ?case
  proof (cases "scan_i self tour bd [1..<length tour - 2]")
    case None
    with Suc.prems show ?thesis by simp
  next
    case (Some r)
    obtain t d where r: "r = (t, d)" by (cases r)
    from scan_i_result [OF Some [unfolded r]]
    have d: "d = calculate_tour_distance self t" and lt: "d < bd" by simp_all
    from Suc.IH [OF d] have "calculate_tour_distance self (improve_loop k self t t d) \<le> d" .
    with lt Some r show ?thesis by simp
  qed
qed

lemma improve_2opt_mset: "mset (improve_2opt self tour k) = mset tour"
  by (simp add: improve_2opt_def improve_loop_mset)

lemma solve_loop_perm:
  "\<forall>s \<in> set starts. s < n self \<Longrightarrow>
   (\<forall>t. bt = Some t \<longrightarrow> mset t = mset [0..<n self]) \<Longrightarrow>
   starts \<noteq> [] \<or> bt \<noteq> None \<Longrightarrow>
   bt = None \<longrightarrow> bd = None \<Longrightarrow>
   \<exists>t. solve_loop self starts bt bd = Inr (Some t) \<and> mset t = mset [0..<n self]"
proof (induction starts arbitrary: bt bd)
  case Nil
  then show ?case by auto
next
  case (Cons s rest)
  from Cons.prems(1) have "s < n self" by simp
  from solve_nearest_neighbor_perm [OF this]
  obtain t0 where t0: "solve_nearest_neighbor self s = Inr t0"
    and m0: "mset t0 = mset [0..<n self]" by blast
  let ?t = "improve_2opt self t0 1000"
  have m: "mset ?t = mset [0..<n self]" using m0 by (simp only: improve_2opt_mset)
  from Cons.prems(1) have rest: "\<forall>s \<in> set rest. s < n self" by simp
  show ?case
  proof (cases "lt_inf (calculate_tour_distance self ?t) bd")
    case True
    from Cons.IH [OF rest, of "Some ?t" "Some (calculate_tour_distance self ?t)"] m
    obtain t where "solve_loop self rest (Some ?t) (Some (calculate_tour_distance self ?t)) = Inr (Some t)"
      and "mset t = mset [0..<n self]" by auto
    with True t0 show ?thesis by (simp add: Let_def del: mset_upt)
  next
    case False
    then have "bd \<noteq> None" by (auto simp: lt_inf_def split: option.splits)
    with Cons.prems(4) have bt: "bt \<noteq> None" by blast
    from Cons.IH [OF rest Cons.prems(2) _ Cons.prems(4)] bt
    obtain t where "solve_loop self rest bt bd = Inr (Some t)"
      and "mset t = mset [0..<n self]" by blast
    with False t0 show ?thesis by (simp add: Let_def del: mset_upt)
  qed
qed

lemma solve_perm:
  "\<exists>t. solve self = Inr (Some t) \<and> mset t = mset [0..<n self]"
proof (cases "n self \<le> 1")
  case True
  then show ?thesis by (simp add: solve_def)
next
  case False
  have "\<exists>t. solve_loop self [0..<min 5 (n self)] None None = Inr (Some t) \<and>
             mset t = mset [0..<n self]"
    by (rule solve_loop_perm) (use False in auto)
  with False show ?thesis by (simp add: solve_def Let_def del: mset_upt)
qed

text \<open>
  Claim C3: for every list of track records, \<^verbatim>\<open>TSPSolver(songs).solve()\<close> returns a tour
  (no exception, not \<^verbatim>\<open>None\<close>) that is a permutation of the indices \<open>0..N-1\<close>, without
  duplicate and without missing index; for \<open>N \<le> 1\<close> it is the trivial tour
  \<^verbatim>\<open>list(range(N))\<close>.
\<close>

theorem solve_returns_permutation:
  "\<exists>tour. solve (TSPSolver_init sgs) = Inr (Some tour) \<and>
          mset tour = mset [0..<length sgs] \<and>
          distinct tour \<and> set tour = {0..<length sgs} \<and>
          (length sgs \<le> 1 \<longrightarrow> tour = [0..<length sgs])"
proof -
  let ?self = "TSPSolver_init sgs"
  have n: "n ?self = length sgs" by (simp add: TSPSolver_init_def)
  from solve_perm [of ?self] n
  obtain tour where s: "solve ?self = Inr (Some tour)"
    and m: "mset tour = mset [0..<length sgs]" by auto
  from m have d: "distinct tour" by (metis distinct_upt mset_eq_imp_distinct_iff)
  from m have st: "set tour = {0..<length sgs}" by (metis mset_eq_setD set_upt)
  have "length sgs \<le> 1 \<longrightarrow> tour = [0..<length sgs]"
    using s n by (auto simp: solve_def)
  with s m d st show ?thesis by blast
qed

theorem solve_returns_permutation_witness:
  "length [scenario_song 120 ''8A'' 0.1] \<le> 1 \<and>
   solve (TSPSolver_init [scenario_song 120 ''8A'' 0.1]) = Inr (Some [0])"
proof -
  have h: "length [scenario_song 120 ''8A'' 0.1] \<le> 1" by simp
  from solve_returns_permutation [of "[scenario_song 120 ''8A'' 0.1]"] h
  show ?thesis by auto
qed

text \<open>
  Claim C4: for every tour over the indices of the library, the cyclic distance of the tour
  returned by \<^verbatim>\<open>improve_2opt\<close> is at most the cyclic distance of the input tour, for
  every iteration cap; in particular for the nearest-neighbour tour of every start index.
\<close>

theorem improve_2opt_not_worse:
  "(set tour \<subseteq> {0..<length sgs} \<longrightarrow>
      calculate_tour_distance (TSPSolver_init sgs)
          (improve_2opt (TSPSolver_init sgs) tour max_iterations)
        \<le> calculate_tour_distance (TSPSolver_init sgs) tour) \<and>
   (start < length sgs \<longrightarrow>
      (\<exists>nn. solve_nearest_neighbor (TSPSolver_init sgs) start = Inr nn \<and>
            calculate_tour_distance (TSPSolver_init sgs)
                (improve_2opt (TSPSolver_init sgs) nn max_iterations)
              \<le> calculate_tour_distance (TSPSolver_init sgs) nn))"
proof (intro conjI impI)
  show "calculate_tour_distance (TSPSolver_init sgs)
          (improve_2opt (TSPSolver_init sgs) tour max_iterations)
        \<le> calculate_tour_distance (TSPSolver_init sgs) tour"
    unfolding improve_2opt_def by (rule improve_loop_distance) simp
next
  assume "start < length sgs"
  then have "start < n (TSPSolver_init sgs)" by (simp add: TSPSolver_init_def)
  from solve_nearest_neighbor_perm [OF this]
  obtain nn where nn: "solve_nearest_neighbor (TSPSolver_init sgs) start = Inr nn" by blast
  have "calculate_tour_distance (TSPSolver_init sgs)
          (improve_2opt (TSPSolver_init sgs) nn max_iterations)
        \<le> calculate_tour_distance (TSPSolver_init sgs) nn"
    unfolding improve_2opt_def by (rule improve_loop_distance) simp
  with nn show "\<exists>nn. solve_nearest_neighbor (TSPSolver_init sgs) start = Inr nn \<and>
            calculate_tour_distance (TSPSolver_init sgs)
                (improve_2opt (TSPSolver_init sgs) nn max_iterations)
              \<le> calculate_tour_distance (TSPSolver_init sgs) nn" by blast
qed

theorem improve_2opt_not_worse_witness:
  "set [0, 1, 3, 2] \<subseteq> {0..<length scenario_library} \<and>
   calculate_tour_distance (TSPSolver_init scenario_library)
       (improve_2opt (TSPSolver_init scenario_library) [0, 1, 3, 2] 1000)
     \<le> calculate_tour_distance (TSPSolver_init scenario_library) [0, 1, 3, 2] \<and>
   (0::nat) < length scenario_library \<and>
   (\<exists>nn. solve_nearest_neighbor (TSPSolver_init scenario_library) 0 = Inr nn \<and>
         calculate_tour_distance (TSPSolver_init scenario_library)
             (improve_2opt (TSPSolver_init scenario_library) nn 1000)
           \<le> calculate_tour_distance (TSPSolver_init scenario_library) nn)"
proof -
  have h1: "set [0, 1, 3, 2] \<subseteq> {0..<length scenario_library}"
    and h2: "(0::nat) < length scenario_library"
    by (simp_all add: scenario_library_def)
  from improve_2opt_not_worse [of "[0, 1, 3, 2]" scenario_library 1000 0] h1 h2
  show ?thesis by blast
qed

section \<open>Crossfade compatibility\<close>

text \<open>
  Claim C7, as the code has it: the score is the clamp to \<open>[0, 1]\<close> of
  \<open>0.5 (1 - keyDistance) + 0.35 (1 - bpmDistance) + 0.15 (1 - min (|e1 - e2| / 0.2) 1)\<close>:
  the energy term is normalised by 0.2, not by the 0.1 of the tour distance. For positive
  tempos the clamp changes nothing.
\<close>

theorem song_compatibility_formula:
  "calculate_song_compatibility t1 t2 =
     max 0 (min 1 (0.5 * (1 - key_distance (key t1) (key t2)) +
                   0.35 * (1 - bpm_distance (bpm t1) (bpm t2)) +
                   0.15 * (1 - min (\<bar>energy t1 - energy t2\<bar> / 0.2) 1))) \<and>
   (0 < bpm t1 \<and> 0 < bpm t2 \<longrightarrow>
      calculate_song_compatibility t1 t2 =
        0.5 * (1 - key_distance (key t1) (key t2)) +
        0.35 * (1 - bpm_distance (bpm t1) (bpm t2)) +
        0.15 * (1 - min (\<bar>energy t1 - energy t2\<bar> / 0.2) 1))"
proof -
  let ?kd = "key_distance (key t1) (key t2)"
  let ?bd = "bpm_distance (bpm t1) (bpm t2)"
  let ?es = "1 - min (\<bar>energy t1 - energy t2\<bar> / 0.2) 1"
  let ?c = "0.5 * (1 - ?kd) + 0.35 * (1 - ?bd) + 0.15 * ?es"
  have es: "max 0 (1 - \<bar>energy t1 - energy t2\<bar> / 0.2) = ?es"
    by (simp add: max_def min_def)
  have a: "calculate_song_compatibility t1 t2 = max 0 (min 1 ?c)"
    unfolding calculate_song_compatibility_def Let_def es by (simp add: mult.commute)
  have b: "max 0 (min 1 ?c) = ?c" if "0 < bpm t1 \<and> 0 < bpm t2"
  proof -
    from that bpm_distance_bounds [of "bpm t1" "bpm t2"]
    have bd: "0 \<le> ?bd" "?bd \<le> 1" by simp_all
    from key_distance_bounds [of "key t1" "key t2"] have kd: "0 \<le> ?kd" "?kd \<le> 1" by simp_all
    have e: "0 \<le> ?es" "?es \<le> 1" by (simp_all add: min_def)
    have lin: "0 \<le> 0.5 * (1 - k) + 0.35 * (1 - b) + 0.15 * x \<and>
               0.5 * (1 - k) + 0.35 * (1 - b) + 0.15 * x \<le> 1"
      if "0 \<le> k" "k \<le> 1" "0 \<le> b" "b \<le> 1" "0 \<le> x" "x \<le> 1" for k b x :: real
      using that by (simp add: field_simps)
    from lin [OF kd bd e] show ?thesis by (simp only: max_def min_def) simp
  qed
  from a b show ?thesis by simp
qed

theorem song_compatibility_formula_witness:
  "0 < bpm (scenario_song 120 ''8A'' 0) \<and> 0 < bpm (scenario_song 120 ''8A'' 0.1) \<and>
   calculate_song_compatibility (scenario_song 120 ''8A'' 0) (scenario_song 120 ''8A'' 0.1) =
     37 / 40"
proof -
  have h: "0 < bpm (scenario_song 120 ''8A'' 0) \<and> 0 < bpm (scenario_song 120 ''8A'' 0.1)"
    by (simp add: scenario_song_def)
  have k: "key_distance ''8A'' ''8A'' = 0" by (simp add: key_distance_def)
  have b: "bpm_distance 120 120 = 0" by (simp add: bpm_eval)
  from song_compatibility_formula
         [of "scenario_song 120 ''8A'' 0" "scenario_song 120 ''8A'' 0.1"] h
  have "calculate_song_compatibility (scenario_song 120 ''8A'' 0) (scenario_song 120 ''8A'' 0.1) =
        0.5 * (1 - key_distance (key (scenario_song 120 ''8A'' 0)) (key (scenario_song 120 ''8A'' 0.1))) +
        0.35 * (1 - bpm_distance (bpm (scenario_song 120 ''8A'' 0)) (bpm (scenario_song 120 ''8A'' 0.1))) +
        0.15 * (1 - min (\<bar>energy (scenario_song 120 ''8A'' 0) - energy (scenario_song 120 ''8A'' 0.1)\<bar> / 0.2) 1)"
    by blast
  then have "calculate_song_compatibility (scenario_song 120 ''8A'' 0) (scenario_song 120 ''8A'' 0.1) =
      37 / 40"
    by (simp add: scenario_song_def k b)
  with h show ?thesis by blast
qed

text \<open>With energies 0 and 0.1 the score is 0.925; the formula with 0.1 would give 0.85.\<close>

theorem song_compatibility_counterexample:
  "calculate_song_compatibility (scenario_song 120 ''8A'' 0) (scenario_song 120 ''8A'' 0.1) \<noteq>
     0.5 * (1 - key_distance ''8A'' ''8A'') + 0.35 * (1 - bpm_distance 120 120) +
     0.15 * (1 - min (\<bar>0 - 0.1\<bar> / 0.1) 1)"
proof -
  have k: "key_distance ''8A'' ''8A'' = 0" by (simp add: key_distance_def)
  have b: "bpm_distance 120 120 = 0" by (simp add: bpm_eval)
  show ?thesis
    by (simp add: calculate_song_compatibility_def scenario_song_def k b)
qed

section \<open>Render path\<close>

lemma length_zeros: "length (zeros k) = k"
  by (simp add: zeros_def)

lemma length_py_slice: "hi \<le> length xs \<Longrightarrow> length (py_slice xs lo hi) = hi - lo"
  by (simp add: py_slice_def)

lemma length_mix_chunks:
  "length (mix_chunks a w b w') = min (length a) (length b)"
  by (simp add: mix_chunks_def)

lemma length_crossfade_chunk: "length (crossfade_chunk self k) = k"
  by (simp add: crossfade_chunk_def Let_def length_mix_chunks length_zeros length_py_slice
           split: option.splits)

lemma length_assign_slice:
  "lo \<le> hi \<Longrightarrow> hi \<le> length out \<Longrightarrow> length xs = hi - lo \<Longrightarrow>
     length (assign_slice out lo hi xs) = length out"
  by (simp add: assign_slice_def)

text \<open>The loop body runs at most once per call.\<close>

lemma crossfade_loop_once:
  "crossfade_loop fc g out self =
     (let k = min (fc - g) (crossfade_samples self - crossfade_position self)
      in if k = 0 then (out, self)
         else (assign_slice out g (g + k) (crossfade_chunk self k), crossfade_advance self k))"
proof (cases "g < fc")
  case False
  then show ?thesis by (simp add: Let_def crossfade_loop.simps)
next
  case True
  let ?k = "min (fc - g) (crossfade_samples self - crossfade_position self)"
  show ?thesis
  proof (cases "?k = 0")
    case True
    with \<open>g < fc\<close> show ?thesis by (subst crossfade_loop.simps) (simp add: Let_def)
  next
    case False
    show ?thesis
    proof (cases "crossfade_samples self \<le> crossfade_position self + ?k")
      case True
      with False \<open>g < fc\<close> show ?thesis
        by (subst crossfade_loop.simps) (simp add: Let_def crossfade_advance_def)
    next
      case nc: False
      then have gk: "g + ?k = fc" using \<open>g < fc\<close> by (simp add: min_def split: if_splits)
      have stop: "\<And>o' s'. crossfade_loop fc fc o' s' = (o', s')"
        by (subst crossfade_loop.simps) simp
      from nc False \<open>g < fc\<close> show ?thesis
        by (subst crossfade_loop.simps) (simp add: Let_def crossfade_advance_def stop gk)
    qed
  qed
qed

lemma length_crossfade_loop:
  "length out = fc \<Longrightarrow> length (fst (crossfade_loop fc 0 out self)) = fc"
  by (simp add: crossfade_loop_once Let_def length_assign_slice length_crossfade_chunk)

lemma generate_audio_chunk_length:
  "generate_audio_chunk self fc = Inr (out, self') \<Longrightarrow> length out = fc"
proof (cases "is_crossfading self")
  case True
  assume g: "generate_audio_chunk self fc = Inr (out, self')"
  obtain o1 s1 where l: "crossfade_loop fc 0 (zeros fc) self = (o1, s1)" by force
  with length_crossfade_loop [of "zeros fc" fc self] have "length o1 = fc"
    by (simp add: length_zeros)
  with g True l show ?thesis by (auto simp: generate_audio_chunk_def)
next
  case False
  assume g: "generate_audio_chunk self fc = Inr (out, self')"
  with False show ?thesis
    by (auto simp: generate_audio_chunk_def Let_def length_zeros length_py_slice
          assign_slice_def split: option.splits if_splits)
qed

lemma generate_audio_chunk_ok:
  "is_crossfading self \<or> current_audio self \<noteq> None \<Longrightarrow>
     \<exists>out self'. generate_audio_chunk self fc = Inr (out, self')"
  by (auto simp: generate_audio_chunk_def Let_def split: option.splits prod.splits)

lemma audio_callback_length: "length (fst (audio_callback self fc)) = fc"
proof (cases "generate_audio_chunk self fc")
  case (Inl e)
  then show ?thesis by (simp add: audio_callback_def length_zeros)
next
  case (Inr r)
  obtain out self' where r: "r = (out, self')" by (cases r)
  with Inr generate_audio_chunk_length [of self fc out self'] show ?thesis
    by (simp add: audio_callback_def length_zeros)
qed

lemma soft_limit_scale_zero: "soft_limit (scale_frame g (0, 0)) = (0, 0)"
  by (simp add: soft_limit_def scale_frame_def)

text \<open>
  Claim C1: for every frame count and every mixer state, the audio callback returns exactly
  that many stereo frames; when playback is stopped or there is no current buffer they are
  all zero and the state is untouched; and whenever there is a current buffer (or a
  crossfade is running) \<^verbatim>\<open>_generate_audio_chunk\<close> itself returns that many frames without
  raising.
\<close>

theorem render_returns_frame_count:
  "length (fst (audio_callback self frame_count)) = frame_count \<and>
   (\<not> is_playing self \<or> current_audio self = None \<longrightarrow>
      audio_callback self frame_count = (replicate frame_count (0, 0), self)) \<and>
   (is_crossfading self \<or> current_audio self \<noteq> None \<longrightarrow>
      (\<exists>out self'. generate_audio_chunk self frame_count = Inr (out, self') \<and>
                   length out = frame_count))"
proof (intro conjI impI)
  show "length (fst (audio_callback self frame_count)) = frame_count"
    by (rule audio_callback_length)
next
  assume "\<not> is_playing self \<or> current_audio self = None"
  then show "audio_callback self frame_count = (replicate frame_count (0, 0), self)"
    by (auto simp: audio_callback_def zeros_def)
next
  assume "is_crossfading self \<or> current_audio self \<noteq> None"
  from generate_audio_chunk_ok [OF this, of frame_count]
  obtain out self' where g: "generate_audio_chunk self frame_count = Inr (out, self')" by blast
  then have "length out = frame_count" by (rule generate_audio_chunk_length)
  with g show "\<exists>out self'. generate_audio_chunk self frame_count = Inr (out, self') \<and>
                   length out = frame_count" by blast
qed

theorem render_returns_frame_count_witness:
  "\<not> is_playing ((AudioMixer_init 44100 1024)\<lparr>current_audio := Some (replicate 8 (1, 1))\<rparr>) \<and>
   current_audio ((AudioMixer_init 44100 1024)\<lparr>current_audio := Some (replicate 8 (1, 1))\<rparr>)
     \<noteq> None \<and>
   audio_callback ((AudioMixer_init 44100 1024)\<lparr>current_audio := Some (replicate 8 (1, 1))\<rparr>) 4 =
     (replicate 4 (0, 0),
      (AudioMixer_init 44100 1024)\<lparr>current_audio := Some (replicate 8 (1, 1))\<rparr>) \<and>
   (\<exists>out self'.
      generate_audio_chunk
        ((AudioMixer_init 44100 1024)\<lparr>current_audio := Some (replicate 8 (1, 1))\<rparr>) 4 =
        Inr (out, self') \<and> length out = 4)"
proof -
  let ?m = "(AudioMixer_init 44100 1024)\<lparr>current_audio := Some (replicate 8 (1, 1))\<rparr>"
  have h1: "\<not> is_playing ?m" and h2: "current_audio ?m \<noteq> None"
    by (simp_all add: AudioMixer_init_def)
  from render_returns_frame_count [of ?m 4] h1 h2 show ?thesis by blast
qed

text \<open>
  Claim C9: when the rest of the crossfade window is shorter than the requested block, the
  frames after the window stay zero, the next track becomes the current one, and the read
  cursor is the size of the last sub-chunk, which differs from the window length whenever
  the crossfade began in an earlier call.
\<close>

theorem crossfade_completes_midcall:
  assumes cf: "is_crossfading self"
    and lt: "crossfade_position self < crossfade_samples self"
    and part: "crossfade_samples self - crossfade_position self < frame_count"
  shows "\<exists>out self'. generate_audio_chunk self frame_count = Inr (out, self') \<and>
           length out = frame_count \<and>
           (\<forall>p. crossfade_samples self - crossfade_position self \<le> p \<and> p < frame_count
                  \<longrightarrow> out ! p = (0, 0)) \<and>
           current_position self' = crossfade_samples self - crossfade_position self \<and>
           (0 < crossfade_position self \<longrightarrow> current_position self' \<noteq> crossfade_samples self) \<and>
           current_audio self' = next_audio self \<and> next_audio self' = None \<and>
           \<not> is_crossfading self' \<and> crossfade_position self' = 0"
proof -
  let ?k = "crossfade_samples self - crossfade_position self"
  let ?chunk = "crossfade_chunk self ?k"
  let ?s = "self\<lparr>current_audio := next_audio self, next_audio := None,
                  current_position := ?k, is_crossfading := False, crossfade_position := 0\<rparr>"
  let ?raw = "assign_slice (zeros frame_count) 0 ?k ?chunk"
  let ?out = "map soft_limit (map (scale_frame (master_volume self)) ?raw)"
  have k: "0 < ?k" "min frame_count ?k = ?k" using lt part by simp_all
  have loop: "crossfade_loop frame_count 0 (zeros frame_count) self = (?raw, ?s)"
    using k lt part by (simp add: crossfade_loop_once Let_def crossfade_advance_def)
  have gen: "generate_audio_chunk self frame_count = Inr (?out, ?s)"
    using cf loop by (simp add: generate_audio_chunk_def)
  have raw: "?raw = ?chunk @ zeros (frame_count - ?k)"
    by (simp add: assign_slice_def zeros_def)
  have len: "length ?out = frame_count"
    using part by (simp add: raw length_crossfade_chunk length_zeros)
  have tail: "?out ! p = (0, 0)" if "?k \<le> p" "p < frame_count" for p
  proof -
    from that have "(?chunk @ zeros (frame_count - ?k)) ! p = (0, 0)"
      by (simp add: nth_append length_crossfade_chunk zeros_def)
    then have "?raw ! p = (0, 0)" unfolding raw .
    moreover from that part have "p < length ?raw"
      by (simp add: raw length_crossfade_chunk length_zeros)
    ultimately show ?thesis by (simp add: soft_limit_scale_zero)
  qed
  from gen len tail lt show ?thesis by auto
qed

lemmas mixer_eval = scenario_mixer_def start_crossfade_def prepare_next_song_def play_song_def
  AudioMixer_init_def

lemma crossfade_chunk_ones_zeros:
  assumes "current_audio self = Some (replicate N (1, 1))"
    and "next_audio self = Some (replicate M (0, 0))"
    and "current_position self + k \<le> N" and "k \<le> M"
  shows "crossfade_chunk self k =
           replicate k (1 - real (crossfade_position self) / real (crossfade_samples self),
                        1 - real (crossfade_position self) / real (crossfade_samples self))"
  using assms
  by (simp add: crossfade_chunk_def Let_def py_slice_def mix_chunks_def min_def)

lemma render_ones_into_zeros:
  assumes play: "is_playing self" and cf: "is_crossfading self"
    and cur: "current_audio self = Some (replicate N (1, 1))"
    and nxt: "next_audio self = Some (replicate M (0, 0))"
    and k: "0 < k" "crossfade_position self + k \<le> crossfade_samples self"
    and room: "current_position self + k \<le> N" "k \<le> M"
  shows "\<exists>v self'. audio_callback self k = (replicate k (v, v), self') \<and>
           v = tanh (master_volume self *
                     (1 - real (crossfade_position self) / real (crossfade_samples self)) * 0.95)
               * 0.95 \<and>
           (crossfade_position self + k = crossfade_samples self \<longrightarrow>
              \<not> is_crossfading self' \<and> is_playing self' \<and>
              current_audio self' = next_audio self \<and> next_audio self' = None) \<and>
           (crossfade_position self + k < crossfade_samples self \<longrightarrow>
              self' = self\<lparr>current_position := current_position self + k,
                            crossfade_position := crossfade_position self + k\<rparr>)"
proof -
  let ?w = "1 - real (crossfade_position self) / real (crossfade_samples self)"
  let ?s = "crossfade_advance self k"
  have m: "min k (crossfade_samples self - crossfade_position self) = k" using k by simp
  have "crossfade_loop k 0 (zeros k) self =
          (assign_slice (zeros k) 0 k (crossfade_chunk self k), ?s)"
    using k m by (simp add: crossfade_loop_once Let_def)
  then have loop: "crossfade_loop k 0 (zeros k) self = (replicate k (?w, ?w), ?s)"
    by (simp add: crossfade_chunk_ones_zeros [OF cur nxt room] assign_slice_def zeros_def)
  have mv: "master_volume ?s = master_volume self" by (simp add: crossfade_advance_def)
  have gen: "generate_audio_chunk self k =
      Inr (replicate k (tanh (master_volume self * ?w * 0.95) * 0.95,
                        tanh (master_volume self * ?w * 0.95) * 0.95), ?s)"
    using cf loop mv
    by (simp add: generate_audio_chunk_def soft_limit_def scale_frame_def mult.commute)
  have cb: "audio_callback self k =
      (replicate k (tanh (master_volume self * ?w * 0.95) * 0.95,
                    tanh (master_volume self * ?w * 0.95) * 0.95), ?s)"
    using play cur gen by (simp add: audio_callback_def)
  have a: "crossfade_position self + k = crossfade_samples self \<longrightarrow>
              \<not> is_crossfading ?s \<and> is_playing ?s \<and>
              current_audio ?s = next_audio self \<and> next_audio ?s = None"
    using play by (simp add: crossfade_advance_def)
  have b: "crossfade_position self + k < crossfade_samples self \<longrightarrow>
              ?s = self\<lparr>current_position := current_position self + k,
                         crossfade_position := crossfade_position self + k\<rparr>"
    by (simp add: crossfade_advance_def)
  from cb a b show ?thesis by blast
qed

lemma scenario_first_half:
  "audio_callback scenario_mixer 50 =
     (replicate 50 (tanh (19 / 25) * (19 / 20), tanh (19 / 25) * (19 / 20)),
      scenario_mixer\<lparr>current_position := 50, crossfade_position := 50\<rparr>)"
  by (simp add: scenario_mixer_def start_crossfade_def prepare_next_song_def play_song_def
        AudioMixer_init_def audio_callback_def generate_audio_chunk_def crossfade_loop_once
        Let_def crossfade_advance_def crossfade_chunk_def py_slice_def mix_chunks_def
        assign_slice_def zeros_def soft_limit_def scale_frame_def)

theorem crossfade_completes_midcall_witness:
  "is_crossfading (snd (audio_callback scenario_mixer 50)) \<and>
   crossfade_position (snd (audio_callback scenario_mixer 50)) <
     crossfade_samples (snd (audio_callback scenario_mixer 50)) \<and>
   crossfade_samples (snd (audio_callback scenario_mixer 50)) -
     crossfade_position (snd (audio_callback scenario_mixer 50)) < 64 \<and>
   (\<exists>out self'. generate_audio_chunk (snd (audio_callback scenario_mixer 50)) 64 =
        Inr (out, self') \<and> length out = 64 \<and> out ! 50 = (0, 0) \<and> out ! 63 = (0, 0) \<and>
        current_position self' = 50 \<and> current_position self' \<noteq> 100 \<and>
        current_audio self' = Some (replicate 200 (0, 0)) \<and> next_audio self' = None \<and>
        \<not> is_crossfading self')"
proof -
  let ?m = "snd (audio_callback scenario_mixer 50)"
  have m: "?m = scenario_mixer\<lparr>current_position := 50, crossfade_position := 50\<rparr>"
    by (simp add: scenario_first_half)
  have h1: "is_crossfading ?m"
    and h2: "crossfade_position ?m < crossfade_samples ?m"
    and h3: "crossfade_samples ?m - crossfade_position ?m < 64"
    and k: "crossfade_samples ?m - crossfade_position ?m = 50"
    and nx: "next_audio ?m = Some (replicate 200 (0, 0))"
    unfolding m by (simp_all add: mixer_eval)
  from crossfade_completes_midcall [OF h1 h2 h3]
  obtain out self' where g: "generate_audio_chunk ?m 64 = Inr (out, self')"
    and l: "length out = 64"
    and z: "\<forall>p. crossfade_samples ?m - crossfade_position ?m \<le> p \<and> p < 64 \<longrightarrow> out ! p = (0, 0)"
    and c: "current_position self' = crossfade_samples ?m - crossfade_position ?m"
    and r: "current_audio self' = next_audio ?m" "next_audio self' = None"
           "\<not> is_crossfading self'"
    by blast
  from z k have "out ! 50 = (0, 0)" "out ! 63 = (0, 0)" by simp_all
  with g l c r k nx h1 h2 h3 show ?thesis by simp
qed

text \<open>
  Claim C10: in normal playback with more than \<open>frame_count\<close> frames left, the call scales
  the played slice of the current buffer by the master volume in the buffer itself; the
  output is the limiter applied to the scaled slice, the rest of the buffer is unchanged.
\<close>

theorem render_scales_buffer_in_place:
  assumes nc: "\<not> is_crossfading self"
    and cur: "current_audio self = Some cur"
    and enough: "current_position self + frame_count < length cur"
  shows "\<exists>out cur'. generate_audio_chunk self frame_count =
             Inr (out, self\<lparr>current_position := current_position self + frame_count,
                            current_audio := Some cur'\<rparr>) \<and>
           length out = frame_count \<and> length cur' = length cur \<and>
           (\<forall>p. current_position self \<le> p \<and> p < current_position self + frame_count \<longrightarrow>
                  cur' ! p = scale_frame (master_volume self) (cur ! p) \<and>
                  out ! (p - current_position self) = soft_limit (cur' ! p)) \<and>
           (\<forall>p. p < current_position self \<or>
                  (current_position self + frame_count \<le> p \<and> p < length cur) \<longrightarrow>
                  cur' ! p = cur ! p)"
proof -
  let ?lo = "current_position self"
  let ?hi = "current_position self + frame_count"
  let ?scaled = "map (scale_frame (master_volume self)) (py_slice cur ?lo ?hi)"
  let ?cur' = "assign_slice cur ?lo ?hi ?scaled"
  have gen: "generate_audio_chunk self frame_count =
      Inr (map soft_limit ?scaled, self\<lparr>current_position := ?hi, current_audio := Some ?cur'\<rparr>)"
    using nc cur enough by (simp add: generate_audio_chunk_def Let_def)
  have ls: "length ?scaled = frame_count" using enough by (simp add: py_slice_def)
  have lc: "length ?cur' = length cur" using enough ls by (simp add: assign_slice_def)
  have inside: "?cur' ! p = scale_frame (master_volume self) (cur ! p) \<and>
                map soft_limit ?scaled ! (p - ?lo) = soft_limit (?cur' ! p)"
    if "?lo \<le> p" "p < ?hi" for p
  proof -
    from that have idx: "p - ?lo < frame_count" by arith
    from enough have lt: "length (take ?lo cur) = ?lo" by simp
    have "?cur' ! p = (?scaled @ drop ?hi cur) ! (p - ?lo)"
      unfolding assign_slice_def using that lt by (simp add: nth_append)
    also have "\<dots> = ?scaled ! (p - ?lo)"
      using idx ls by (simp only: nth_append if_True)
    finally have a: "?cur' ! p = ?scaled ! (p - ?lo)" .
    from that enough have b: "?scaled ! (p - ?lo) = scale_frame (master_volume self) (cur ! p)"
      by (simp add: py_slice_def)
    from that ls have c: "map soft_limit ?scaled ! (p - ?lo) = soft_limit (?scaled ! (p - ?lo))"
      by (intro nth_map) simp
    from a b c show ?thesis by simp
  qed
  have outside: "?cur' ! p = cur ! p" if "p < ?lo \<or> (?hi \<le> p \<and> p < length cur)" for p
    using that enough ls by (auto simp: assign_slice_def nth_append)
  have lo: "length (map soft_limit ?scaled) = frame_count" using ls by simp
  from inside have i: "\<forall>p. ?lo \<le> p \<and> p < ?hi \<longrightarrow>
      ?cur' ! p = scale_frame (master_volume self) (cur ! p) \<and>
      map soft_limit ?scaled ! (p - ?lo) = soft_limit (?cur' ! p)" by blast
  from outside have o: "\<forall>p. p < ?lo \<or> (?hi \<le> p \<and> p < length cur) \<longrightarrow> ?cur' ! p = cur ! p"
    by blast
  from gen lo lc i o show ?thesis by blast
qed

theorem render_scales_buffer_in_place_witness:
  "\<not> is_crossfading (snd (play_song (AudioMixer_init 44100 1024) (Some (replicate 10 (1, 1))))) \<and>
   current_audio (snd (play_song (AudioMixer_init 44100 1024) (Some (replicate 10 (1, 1))))) =
     Some (replicate 10 (1, 1)) \<and>
   current_position (snd (play_song (AudioMixer_init 44100 1024) (Some (replicate 10 (1, 1)))))
     + 4 < length (replicate 10 (1 :: real, 1 :: real)) \<and>
   (\<exists>out self' cur'.
      generate_audio_chunk
        (snd (play_song (AudioMixer_init 44100 1024) (Some (replicate 10 (1, 1))))) 4 =
        Inr (out, self') \<and>
      current_audio self' = Some cur' \<and> cur' ! 0 = (4 / 5, 4 / 5) \<and> cur' ! 3 = (4 / 5, 4 / 5) \<and>
      cur' ! 4 = (1, 1) \<and> cur' \<noteq> replicate 10 (1, 1))"
proof -
  let ?m = "snd (play_song (AudioMixer_init 44100 1024) (Some (replicate 10 (1, 1))))"
  let ?cur = "replicate 10 (1 :: real, 1 :: real)"
  have h1: "\<not> is_crossfading ?m" and h2: "current_audio ?m = Some ?cur"
    and h3: "current_position ?m + 4 < length ?cur"
    and p0: "current_position ?m = 0" and mv: "master_volume ?m = 4 / 5"
    by (simp_all add: play_song_def AudioMixer_init_def)
  from render_scales_buffer_in_place [OF h1 h2 h3]
  obtain out cur' where g: "generate_audio_chunk ?m 4 =
        Inr (out, ?m\<lparr>current_position := current_position ?m + 4, current_audio := Some cur'\<rparr>)"
    and ins: "\<forall>p. current_position ?m \<le> p \<and> p < current_position ?m + 4 \<longrightarrow>
                  cur' ! p = scale_frame (master_volume ?m) (?cur ! p) \<and>
                  out ! (p - current_position ?m) = soft_limit (cur' ! p)"
    and outs: "\<forall>p. p < current_position ?m \<or>
                  (current_position ?m + 4 \<le> p \<and> p < length ?cur) \<longrightarrow> cur' ! p = ?cur ! p"
    by blast
  from ins p0 mv have a: "cur' ! 0 = (4 / 5, 4 / 5)" "cur' ! 3 = (4 / 5, 4 / 5)"
    by (simp_all add: scale_frame_def)
  from outs p0 have b: "cur' ! 4 = (1, 1)" by simp
  from a have ne: "cur' \<noteq> replicate 10 (1, 1)" by auto
  from g a b ne h1 h2 h3 show ?thesis by simp
qed

section \<open>Crossfade scenario\<close>

lemma tanh_19_50: "tanh (19 / 50 :: real) < 1 / 2"
proof -
  have "exp (19 / 25 :: real) < exp 1" by (subst exp_less_cancel_iff) simp
  also have "\<dots> \<le> 3" by (rule exp_le)
  finally have y3: "exp (19 / 25 :: real) < 3" .
  have y0: "0 < exp (19 / 25 :: real)" by simp
  have arg: "- 2 * (19 / 50 :: real) = - (19 / 25)" by simp
  have "tanh (19 / 50 :: real) =
          (1 - exp (- 2 * (19 / 50))) / (1 + exp (- 2 * (19 / 50)))"
    by (rule tanh_real_altdef)
  also have "\<dots> = (1 - inverse (exp (19 / 25))) / (1 + inverse (exp (19 / 25)))"
    unfolding arg exp_minus ..
  finally have t: "tanh (19 / 50 :: real) =
      (1 - inverse (exp (19 / 25))) / (1 + inverse (exp (19 / 25)))" .
  define z :: real where "z = inverse (exp (19 / 25))"
  have "inverse 3 < z" unfolding z_def using y3 y0 by (subst inverse_less_iff_less) simp_all
  then have z: "1 / 3 < z" by simp
  then have "(1 - z) / (1 + z) < 1 / 2" by (simp add: pos_divide_less_eq)
  then show ?thesis unfolding t z_def .
qed

text \<open>
  Claim C6, as the code has it: with an all-ones current buffer and an all-zero next buffer,
  a render call of \<open>k\<close> frames inside the crossfade window returns \<open>k\<close> equal samples
  \<open>0.95 tanh (0.95 g (1 - c/W))\<close>, where \<open>g\<close> is the master volume, \<open>c\<close> the crossfade
  cursor at the start of the call and \<open>W\<close> the window: the fade weight is constant within
  a call, and gain and limiter come after it. A call that ends exactly at the window leaves
  the engine playing, not crossfading, with the former next buffer as current and no next
  buffer; a call that ends before it only advances the two cursors.
\<close>

theorem crossfade_ones_into_zeros:
  assumes "is_playing self" and "is_crossfading self"
    and "current_audio self = Some (replicate N (1, 1))"
    and "next_audio self = Some (replicate M (0, 0))"
    and "0 < k" and "crossfade_position self + k \<le> crossfade_samples self"
    and "current_position self + k \<le> N" and "k \<le> M"
  shows "\<exists>v self'. audio_callback self k = (replicate k (v, v), self') \<and>
           v = tanh (master_volume self *
                     (1 - real (crossfade_position self) / real (crossfade_samples self)) * 0.95)
               * 0.95 \<and>
           (crossfade_position self + k = crossfade_samples self \<longrightarrow>
              \<not> is_crossfading self' \<and> is_playing self' \<and>
              current_audio self' = next_audio self \<and> next_audio self' = None) \<and>
           (crossfade_position self + k < crossfade_samples self \<longrightarrow>
              self' = self\<lparr>current_position := current_position self + k,
                            crossfade_position := crossfade_position self + k\<rparr>)"
  using assms by (rule render_ones_into_zeros)

theorem crossfade_ones_into_zeros_witness:
  "is_playing (snd (audio_callback scenario_mixer 50)) \<and>
   is_crossfading (snd (audio_callback scenario_mixer 50)) \<and>
   current_audio (snd (audio_callback scenario_mixer 50)) = Some (replicate 200 (1, 1)) \<and>
   next_audio (snd (audio_callback scenario_mixer 50)) = Some (replicate 200 (0, 0)) \<and>
   crossfade_position (snd (audio_callback scenario_mixer 50)) + 50 =
     crossfade_samples (snd (audio_callback scenario_mixer 50)) \<and>
   current_position (snd (audio_callback scenario_mixer 50)) + 50 \<le> 200 \<and>
   fst (audio_callback (snd (audio_callback scenario_mixer 50)) 50) ! 0 =
     (tanh (19 / 50) * (19 / 20), tanh (19 / 50) * (19 / 20)) \<and>
   \<not> is_crossfading (snd (audio_callback (snd (audio_callback scenario_mixer 50)) 50)) \<and>
   is_playing (snd (audio_callback (snd (audio_callback scenario_mixer 50)) 50)) \<and>
   current_audio (snd (audio_callback (snd (audio_callback scenario_mixer 50)) 50)) =
     Some (replicate 200 (0, 0)) \<and>
   next_audio (snd (audio_callback (snd (audio_callback scenario_mixer 50)) 50)) = None"
proof -
  let ?m = "snd (audio_callback scenario_mixer 50)"
  have m: "?m = scenario_mixer\<lparr>current_position := 50, crossfade_position := 50\<rparr>"
    by (simp add: scenario_first_half)
  have h1: "is_playing ?m" and h2: "is_crossfading ?m"
    and h3: "current_audio ?m = Some (replicate 200 (1, 1))"
    and h4: "next_audio ?m = Some (replicate 200 (0, 0))"
    and h5: "(0::nat) < 50"
    and h6: "crossfade_position ?m + 50 \<le> crossfade_samples ?m"
    and h7: "current_position ?m + 50 \<le> 200" and h8: "(50::nat) \<le> 200"
    and eq: "crossfade_position ?m + 50 = crossfade_samples ?m"
    and mv: "master_volume ?m = 0.8" and cp: "crossfade_position ?m = 50"
    and cs: "crossfade_samples ?m = 100"
    unfolding m by (simp_all add: mixer_eval)
  from crossfade_ones_into_zeros [OF h1 h2 h3 h4 h5 h6 h7 h8] eq
  obtain v self' where cb: "audio_callback ?m 50 = (replicate 50 (v, v), self')"
    and v: "v = tanh (master_volume ?m *
                     (1 - real (crossfade_position ?m) / real (crossfade_samples ?m)) * 0.95)
               * 0.95"
    and st: "\<not> is_crossfading self'" "is_playing self'"
            "current_audio self' = next_audio ?m" "next_audio self' = None"
    by blast
  have "v = tanh (19 / 50) * (19 / 20)" unfolding v mv cp cs by simp
  with cb st h1 h2 h3 h4 h7 eq show ?thesis by simp
qed

text \<open>
  With a window of 100 and the default master volume, rendered as two calls of 50 frames,
  the sample at local position 50 is \<open>0.95 tanh 0.38\<close>, below 0.5.
\<close>

theorem crossfade_midpoint_counterexample:
  "fst (fst (audio_callback (snd (audio_callback scenario_mixer 50)) 50) ! 0) \<noteq> 0.5"
proof -
  let ?m = "scenario_mixer\<lparr>current_position := 50, crossfade_position := 50\<rparr>"
  have "audio_callback ?m 50 =
     (replicate 50 (tanh (19 / 50) * (19 / 20), tanh (19 / 50) * (19 / 20)),
      ?m\<lparr>current_audio := next_audio ?m, next_audio := None,
          current_position := 50, is_crossfading := False, crossfade_position := 0\<rparr>)"
    by (simp add: mixer_eval audio_callback_def generate_audio_chunk_def crossfade_loop_once
        Let_def crossfade_advance_def crossfade_chunk_def py_slice_def mix_chunks_def
        assign_slice_def zeros_def soft_limit_def scale_frame_def)
  then have "fst (fst (audio_callback (snd (audio_callback scenario_mixer 50)) 50) ! 0) =
      tanh (19 / 50) * (19 / 20)"
    by (simp add: scenario_first_half)
  moreover have "tanh (19 / 50 :: real) * (19 / 20) < 1 / 2"
    using tanh_19_50 by simp
  ultimately show ?thesis by simp
qed

section \<open>Starting a track\<close>

text \<open>
  Claim C8, as the code has it: a successful \<^verbatim>\<open>play_song\<close> installs the loaded buffer as
  current, resets the read cursor to 0 and sets the playing flag; the staged next buffer,
  the crossfading flag and the crossfade cursor keep their values.
\<close>

theorem play_song_effect:
  "\<exists>self'. play_song self (Some audio) = (True, self') \<and>
      current_audio self' = Some audio \<and> current_position self' = 0 \<and> is_playing self' \<and>
      next_audio self' = next_audio self \<and>
      is_crossfading self' = is_crossfading self \<and>
      crossfade_position self' = crossfade_position self"
  by (simp add: play_song_def)

text \<open>Called in the middle of a crossfade, it leaves the crossfade running and the next buffer staged.\<close>

theorem play_song_counterexample:
  "next_audio (snd (play_song (snd (audio_callback scenario_mixer 50))
                      (Some (replicate 10 (1, 1))))) \<noteq> None \<and>
   is_crossfading (snd (play_song (snd (audio_callback scenario_mixer 50))
                          (Some (replicate 10 (1, 1))))) \<and>
   fst (play_song (snd (audio_callback scenario_mixer 50)) (Some (replicate 10 (1, 1))))"
  unfolding scenario_first_half by (simp add: play_song_def mixer_eval)

end
